theory Spec2Isabelle
  imports Main "HOL-Library.Word"
begin

unbundle bit_operations_syntax

section \<open>Data model of table.go\<close>

text \<open>
  The Go structs of \<^verbatim>\<open>table.go\<close> as records. Unsigned machine integers are words of
  the declared width; the fixed two-byte arrays \<^verbatim>\<open>[2]uint8\<close> are pairs whose first
  component is index 0 and whose second component is index 1.
\<close>

record ResTableConfig =
  Size :: "32 word"
  Mcc :: "16 word"
  Mnc :: "16 word"
  Language :: "8 word \<times> 8 word"
  Country :: "8 word \<times> 8 word"
  Orientation :: "8 word"
  Touchscreen :: "8 word"
  Density :: "16 word"
  Keyboard :: "8 word"
  Navigation :: "8 word"
  InputFlags :: "8 word"
  InputPad0 :: "8 word"
  ScreenWidth :: "16 word"
  ScreenHeight :: "16 word"
  SDKVersion :: "16 word"
  MinorVersion :: "16 word"
  ScreenLayout :: "8 word"
  UIMode :: "8 word"
  ScreenConfigPad1 :: "8 word"
  ScreenConfigPad2 :: "8 word"

text \<open>The zero value of the struct: what Go's \<^verbatim>\<open>new(ResTableConfig)\<close> holds.\<close>

definition zero_config :: ResTableConfig where
  "zero_config = \<lparr>Size = 0, Mcc = 0, Mnc = 0, Language = (0, 0), Country = (0, 0),
     Orientation = 0, Touchscreen = 0, Density = 0, Keyboard = 0, Navigation = 0,
     InputFlags = 0, InputPad0 = 0, ScreenWidth = 0, ScreenHeight = 0, SDKVersion = 0,
     MinorVersion = 0, ScreenLayout = 0, UIMode = 0, ScreenConfigPad1 = 0,
     ScreenConfigPad2 = 0\<rparr>"

text \<open>
  A configuration has every axis unspecified when each qualifier field is zero. The
  declared record size and the three padding bytes are not axes.
\<close>

definition all_unspecified :: "ResTableConfig \<Rightarrow> bool" where
  "all_unspecified c \<longleftrightarrow>
     Mcc c = 0 \<and> Mnc c = 0 \<and> Language c = (0, 0) \<and> Country c = (0, 0) \<and>
     Orientation c = 0 \<and> Touchscreen c = 0 \<and> Density c = 0 \<and> Keyboard c = 0 \<and>
     Navigation c = 0 \<and> InputFlags c = 0 \<and> ScreenWidth c = 0 \<and> ScreenHeight c = 0 \<and>
     SDKVersion c = 0 \<and> MinorVersion c = 0 \<and> ScreenLayout c = 0 \<and> UIMode c = 0"

section \<open>Configuration matching and comparison\<close>

text \<open>
  \<^verbatim>\<open>func (c *ResTableConfig) Match(settings *ResTableConfig) bool\<close>, for a non-nil
  \<^verbatim>\<open>settings\<close> (the function reads \<^verbatim>\<open>settings.Mcc\<close> first, so a nil pointer
  panics; the caller \<open>findType\<close> below models that). Each \<^verbatim>\<open>return false\<close> of the
  source is one conjunct that must not fire, in the source's order.
\<close>

definition Match :: "ResTableConfig \<Rightarrow> ResTableConfig \<Rightarrow> bool" where
  "Match c settings \<longleftrightarrow>
     \<not> (if Mcc settings = 0 then Mcc c \<noteq> 0
        else Mcc c \<noteq> 0 \<and> Mcc c \<noteq> Mcc settings) \<and>
     \<not> (if Mnc settings = 0 then Mnc c \<noteq> 0
        else Mnc c \<noteq> 0 \<and> Mnc c \<noteq> Mnc settings) \<and>
     \<not> (fst (Language settings) \<noteq> 0 \<and> fst (Language c) \<noteq> 0 \<and>
        \<not> (fst (Language settings) = fst (Language c) \<and>
           snd (Language settings) = snd (Language c))) \<and>
     \<not> (fst (Country settings) \<noteq> 0 \<and> fst (Country c) \<noteq> 0 \<and>
        \<not> (fst (Country settings) = fst (Country c) \<and>
           snd (Country settings) = snd (Country c))) \<and>
     \<not> (ScreenWidth settings \<noteq> 0 \<and> ScreenWidth c \<noteq> 0 \<and>
        ScreenWidth c \<noteq> ScreenWidth settings) \<and>
     \<not> (ScreenHeight settings \<noteq> 0 \<and> ScreenHeight c \<noteq> 0 \<and>
        ScreenHeight c \<noteq> ScreenHeight settings) \<and>
     \<not> (SDKVersion settings \<noteq> 0 \<and> SDKVersion c \<noteq> 0 \<and>
        SDKVersion c > SDKVersion settings) \<and>
     \<not> (MinorVersion settings \<noteq> 0 \<and> MinorVersion c \<noteq> 0 \<and>
        MinorVersion c \<noteq> MinorVersion settings)"

text \<open>
  \<^verbatim>\<open>IsMoreSpecificThan\<close>. An axis block of the source,
  \<^verbatim>\<open>if c.X != o.X { if c.X != 0 { return false }; if o.Y != 0 { return true } }\<close>,
  is two branches of the chain here, both guarded by \<^verbatim>\<open>c.X != o.X\<close>. The first block
  tests \<^verbatim>\<open>o.Mnc\<close> (not \<^verbatim>\<open>o.Mcc\<close>), as the source does.
\<close>

definition IsMoreSpecificThan :: "ResTableConfig \<Rightarrow> ResTableConfig \<Rightarrow> bool" where
  "IsMoreSpecificThan c o' =
    (if Mcc c \<noteq> Mcc o' \<and> Mcc c \<noteq> 0 then False
     else if Mcc c \<noteq> Mcc o' \<and> Mnc o' \<noteq> 0 then True
     else if Mnc c \<noteq> Mnc o' \<and> Mnc c \<noteq> 0 then False
     else if Mnc c \<noteq> Mnc o' \<and> Mnc o' \<noteq> 0 then True
     else if fst (Language c) \<noteq> fst (Language o') \<and> fst (Language c) \<noteq> 0 then False
     else if fst (Language c) \<noteq> fst (Language o') \<and> fst (Language o') \<noteq> 0 then True
     else if fst (Country c) \<noteq> fst (Country o') \<and> fst (Country c) \<noteq> 0 then False
     else if fst (Country c) \<noteq> fst (Country o') \<and> fst (Country o') \<noteq> 0 then True
     else if Orientation c \<noteq> Orientation o' \<and> Orientation c \<noteq> 0 then False
     else if Orientation c \<noteq> Orientation o' \<and> Orientation o' \<noteq> 0 then True
     else if Touchscreen c \<noteq> Touchscreen o' \<and> Touchscreen c \<noteq> 0 then False
     else if Touchscreen c \<noteq> Touchscreen o' \<and> Touchscreen o' \<noteq> 0 then True
     else if ScreenWidth c \<noteq> ScreenWidth o' \<and> ScreenWidth c \<noteq> 0 then False
     else if ScreenWidth c \<noteq> ScreenWidth o' \<and> ScreenWidth o' \<noteq> 0 then True
     else if ScreenHeight c \<noteq> ScreenHeight o' \<and> ScreenHeight c \<noteq> 0 then False
     else if ScreenHeight c \<noteq> ScreenHeight o' \<and> ScreenHeight o' \<noteq> 0 then True
     else if SDKVersion c \<noteq> SDKVersion o' \<and> SDKVersion c \<noteq> 0 then False
     else if SDKVersion c \<noteq> SDKVersion o' \<and> SDKVersion o' \<noteq> 0 then True
     else if MinorVersion c \<noteq> MinorVersion o' \<and> MinorVersion c \<noteq> 0 then False
     else if MinorVersion c \<noteq> MinorVersion o' \<and> MinorVersion o' \<noteq> 0 then True
     else False)"

text \<open>
  \<^verbatim>\<open>IsBetterThan\<close> with a reference configuration. Each axis block of the source has
  the shape \<^verbatim>\<open>if live { if A { return x }; if B { return y } }\<close>; the guard
  \<open>live\<close> is repeated in each branch of the chain. The guards are the source's:
  the orientation test is a disjunction, and the version guard reads
  \<^verbatim>\<open>c.SDKVersion\<close> twice and \<^verbatim>\<open>o.MinorVersion\<close> twice.
\<close>

definition imsi_live :: "ResTableConfig \<Rightarrow> ResTableConfig \<Rightarrow> bool" where
  "imsi_live c o' \<longleftrightarrow> Mcc c \<noteq> 0 \<or> Mnc c \<noteq> 0 \<or> Mcc o' \<noteq> 0 \<or> Mnc o' \<noteq> 0"

definition locale_live :: "ResTableConfig \<Rightarrow> ResTableConfig \<Rightarrow> bool" where
  "locale_live c o' \<longleftrightarrow>
     fst (Language c) \<noteq> 0 \<or> fst (Country c) \<noteq> 0 \<or>
     fst (Language o') \<noteq> 0 \<or> fst (Country o') \<noteq> 0"

definition screen_size_live :: "ResTableConfig \<Rightarrow> ResTableConfig \<Rightarrow> bool" where
  "screen_size_live c o' \<longleftrightarrow>
     ScreenWidth c \<noteq> 0 \<or> ScreenHeight c \<noteq> 0 \<or> ScreenWidth o' \<noteq> 0 \<or> ScreenHeight o' \<noteq> 0"

definition version_live :: "ResTableConfig \<Rightarrow> ResTableConfig \<Rightarrow> bool" where
  "version_live c o' \<longleftrightarrow>
     SDKVersion c \<noteq> 0 \<or> SDKVersion c \<noteq> 0 \<or> MinorVersion o' \<noteq> 0 \<or> MinorVersion o' \<noteq> 0"

definition IsBetterThan_ref :: "ResTableConfig \<Rightarrow> ResTableConfig \<Rightarrow> ResTableConfig \<Rightarrow> bool" where
  "IsBetterThan_ref c o' r =
    (if imsi_live c o' \<and> Mcc c \<noteq> Mcc o' \<and> Mcc r \<noteq> 0 then Mcc c \<noteq> 0
     else if imsi_live c o' \<and> Mnc c \<noteq> Mnc o' \<and> Mnc r \<noteq> 0 then Mnc c \<noteq> 0
     else if locale_live c o' \<and> fst (Language c) \<noteq> fst (Language o') \<and> fst (Language r) \<noteq> 0
       then fst (Language c) \<noteq> 0
     else if locale_live c o' \<and> fst (Country c) \<noteq> fst (Country o') \<and> fst (Country r) \<noteq> 0
       then fst (Country c) \<noteq> 0
     else if Orientation c \<noteq> Orientation o' \<or> Orientation r \<noteq> 0 then Orientation c \<noteq> 0
     else if screen_size_live c o' \<and> ScreenWidth c \<noteq> ScreenWidth o' \<and> ScreenWidth r \<noteq> 0
       then ScreenWidth c \<noteq> 0
     else if screen_size_live c o' \<and> ScreenHeight c \<noteq> ScreenHeight o' \<and> ScreenHeight r \<noteq> 0
       then ScreenHeight c \<noteq> 0
     else if version_live c o' \<and> SDKVersion c \<noteq> SDKVersion o' \<and> SDKVersion r \<noteq> 0
       then SDKVersion c > SDKVersion o'
     else if version_live c o' \<and> MinorVersion c \<noteq> MinorVersion o' then MinorVersion c \<noteq> 0
     else False)"

text \<open>
  \<^verbatim>\<open>func (c *ResTableConfig) IsBetterThan(o *ResTableConfig, r *ResTableConfig) bool\<close>:
  a nil reference (\<open>None\<close>) delegates to \<open>IsMoreSpecificThan\<close>.
\<close>

definition IsBetterThan :: "ResTableConfig \<Rightarrow> ResTableConfig \<Rightarrow> ResTableConfig option \<Rightarrow> bool" where
  "IsBetterThan c o' r =
    (case r of None \<Rightarrow> IsMoreSpecificThan c o' | Some r' \<Rightarrow> IsBetterThan_ref c o' r')"

section \<open>The decoded table\<close>

text \<open>
  Modelled from the spec: \<^verbatim>\<open>ResChunkHeader\<close>, \<^verbatim>\<open>ResValue\<close> and
  \<^verbatim>\<open>ResStringPoolRef\<close> are declared in another file of the package. The spec gives
  their layout: a chunk header is a 16-bit type tag, a 16-bit header size and a 32-bit
  total chunk size; a value record is a 16-bit size, an 8-bit reserved byte, an 8-bit
  type tag and a 32-bit payload; a string-pool reference is a 32-bit index.
\<close>

record ResChunkHeader =
  Type :: "16 word"
  HeaderSize :: "16 word"
  Size :: "32 word"

record ResValue =
  Size :: "16 word"
  Res0 :: "8 word"
  DataType :: "8 word"
  Data :: "32 word"

type_synonym ResStringPoolRef = "32 word"

record ResTableHeader =
  Header :: ResChunkHeader
  PackageCount :: "32 word"

record ResTablePackage =
  Header :: ResChunkHeader
  Id :: "32 word"
  Name :: "16 word list"
  TypeStrings :: "32 word"
  LastPublicType :: "32 word"
  KeyStrings :: "32 word"
  LastPublicKey :: "32 word"

record ResTableType =
  Header :: ResChunkHeader
  Id :: "8 word"
  Res0 :: "8 word"
  Res1 :: "16 word"
  EntryCount :: "32 word"
  EntriesStart :: "32 word"
  Config :: ResTableConfig

record ResTableEntry =
  Size :: "16 word"
  Flags :: "16 word"
  Key :: ResStringPoolRef

text \<open>
  \<^verbatim>\<open>TableEntry\<close> holds two pointers; \<open>None\<close> is the nil pointer of a slot that the
  decoder left untouched.
\<close>

record TableEntry =
  Key :: "ResTableEntry option"
  Value :: "ResValue option"
  Flags :: "32 word"

text \<open>
  \<^verbatim>\<open>TableType.Header\<close> is a pointer that \<^verbatim>\<open>readTableType\<close> always sets, and the
  elements of \<^verbatim>\<open>TablePackage.TableTypes\<close> are pointers that are non-nil in every
  package that the decoder keeps; both are modelled by the value they point to.
\<close>

record TableType =
  Header :: ResTableType
  Entries :: "TableEntry list"

record ResTableTypeSpec =
  Header :: ResChunkHeader
  Id :: "8 word"
  Res0 :: "8 word"
  Res1 :: "16 word"
  EntryCount :: "32 word"

text \<open>
  The string pool type \<^verbatim>\<open>ResStringPool\<close> belongs to the string-pool decoder, which is
  not part of this file: it is the type parameter \<open>'sp\<close>. A nil pool pointer is
  \<open>None\<close>.
\<close>

record 'sp TablePackage =
  Header :: ResTablePackage
  TypeStrings :: "'sp option"
  KeyStrings :: "'sp option"
  TableTypes :: "TableType list"

text \<open>
  \<^verbatim>\<open>tablePackages map[uint32]*TablePackage\<close>: a lookup of an absent key yields the nil
  pointer in Go, \<open>None\<close> here. The decoder never stores a nil pointer under a key.
\<close>

record 'sp TableFile =
  stringPool :: "'sp option"
  tablePackages :: "32 word \<rightharpoonup> 'sp TablePackage"

section \<open>Resolution\<close>

text \<open>A run-time panic of the Go program.\<close>

datatype fault = NilDereference | IndexOutOfRange

text \<open>Go's \<^verbatim>\<open>error\<close> values that the code of this file can return.\<close>

datatype error = EOF | ErrUnexpectedEOF | StringPoolError

text \<open>What \<^verbatim>\<open>GetResource\<close> returns in its \<^verbatim>\<open>interface{}\<close> component.\<close>

datatype resource = Nil | String string | Uint32 "32 word" | Bool bool

text \<open>
  The value-type tags \<^verbatim>\<open>TYPE_NULL\<close>, ... are constants declared in another file of the
  package; the functions below take them as a parameter.
\<close>

record value_types =
  TYPE_NULL :: "8 word"
  TYPE_STRING :: "8 word"
  TYPE_INT_DEC :: "8 word"
  TYPE_INT_HEX :: "8 word"
  TYPE_INT_BOOLEAN :: "8 word"

text \<open>
  \<^verbatim>\<open>ResId\<close> is a \<^verbatim>\<open>uint32\<close>; \<^verbatim>\<open>int(id)\<close> is its value as a (64-bit) Go int.
  The method \<^verbatim>\<open>ResId.Type\<close> is \<open>Type'\<close> here, since \<open>Type\<close> is the field of the
  chunk header.
\<close>

type_synonym ResId = "32 word"

definition Package :: "ResId \<Rightarrow> int" where
  "Package id' = drop_bit 24 (uint id')"

definition Type' :: "ResId \<Rightarrow> int" where
  "Type' id' = drop_bit 16 (uint id') AND 0xFF"

definition Entry :: "ResId \<Rightarrow> int" where
  "Entry id' = uint id' AND 0xFFFF"

definition findPackage :: "'sp TableFile \<Rightarrow> int \<Rightarrow> 'sp TablePackage option" where
  "findPackage f id' = tablePackages f (word_of_int id')"

text \<open>
  The loop of \<^verbatim>\<open>findType\<close> over \<^verbatim>\<open>p.TableTypes\<close>, with the loop variable
  \<^verbatim>\<open>best\<close> as an argument (\<open>None\<close> is nil). \<^verbatim>\<open>Match\<close> dereferences its argument,
  so a nil \<^verbatim>\<open>config\<close> panics at the first variant whose type id is the requested one.
\<close>

fun findType_loop ::
  "TableType list \<Rightarrow> int \<Rightarrow> ResTableConfig option \<Rightarrow> TableType option \<Rightarrow> fault + TableType option"
where
  "findType_loop [] id' config best = Inr best"
| "findType_loop (t # ts) id' config best =
    (if uint (ResTableType.Id (TableType.Header t)) \<noteq> id' then findType_loop ts id' config best
     else case config of
       None \<Rightarrow> Inl NilDereference
     | Some settings \<Rightarrow>
        if \<not> Match (Config (TableType.Header t)) settings then findType_loop ts id' config best
        else if (case best of
                   None \<Rightarrow> True
                 | Some b \<Rightarrow> IsBetterThan (Config (TableType.Header t))
                     (Config (TableType.Header b)) config)
          then findType_loop ts id' config (Some t)
          else findType_loop ts id' config best)"

definition findType ::
  "'sp TablePackage \<Rightarrow> int \<Rightarrow> ResTableConfig option \<Rightarrow> fault + TableType option" where
  "findType p id' config = findType_loop (TableTypes p) id' config None"

text \<open>
  \<^verbatim>\<open>(*ResStringPool).GetString\<close> is a method of the string-pool decoder; it is the
  parameter \<open>poolGetString\<close>, which receives the possibly nil pool pointer.
\<close>

definition GetString ::
  "('sp option \<Rightarrow> ResStringPoolRef \<Rightarrow> fault + string) \<Rightarrow> 'sp TableFile \<Rightarrow> ResStringPoolRef
    \<Rightarrow> fault + string" where
  "GetString poolGetString f ref = poolGetString (stringPool f) ref"

text \<open>
  \<^verbatim>\<open>GetResource\<close> returns a pair \<^verbatim>\<open>(interface{}, error)\<close>, or panics: on the nil
  package of an absent key (\<^verbatim>\<open>p.TableTypes\<close>), on the nil type when no variant was
  selected (\<^verbatim>\<open>t.Entries\<close>), on an index outside \<^verbatim>\<open>t.Entries\<close>, and on the nil
  \<^verbatim>\<open>Value\<close> of an empty slot (\<^verbatim>\<open>v.DataType\<close>).
\<close>

definition GetResource ::
  "value_types \<Rightarrow> ('sp option \<Rightarrow> ResStringPoolRef \<Rightarrow> fault + string) \<Rightarrow> 'sp TableFile \<Rightarrow> ResId
    \<Rightarrow> ResTableConfig option \<Rightarrow> fault + (resource \<times> error option)" where
  "GetResource tags poolGetString f id' config =
    (case findPackage f (Package id') of
       None \<Rightarrow> Inl NilDereference
     | Some p \<Rightarrow>
        (case findType p (Type' id') config of
           Inl e \<Rightarrow> Inl e
         | Inr None \<Rightarrow> Inl NilDereference
         | Inr (Some t) \<Rightarrow>
            if nat (Entry id') < length (Entries t) then
              (case Value (Entries t ! nat (Entry id')) of
                 None \<Rightarrow> Inl NilDereference
               | Some v \<Rightarrow>
                  if DataType v = TYPE_NULL tags then Inr (Nil, None)
                  else if DataType v = TYPE_STRING tags then
                    (case GetString poolGetString f (Data v) of
                       Inl e \<Rightarrow> Inl e
                     | Inr s \<Rightarrow> Inr (String s, None))
                  else if DataType v = TYPE_INT_DEC tags then Inr (Uint32 (Data v), None)
                  else if DataType v = TYPE_INT_HEX tags then Inr (Uint32 (Data v), None)
                  else if DataType v = TYPE_INT_BOOLEAN tags then Inr (Bool (Data v \<noteq> 0), None)
                  else Inr (Uint32 (Data v), None))
            else Inl IndexOutOfRange))"

section \<open>Reading from the byte source\<close>

text \<open>
  The byte source is an in-memory \<^verbatim>\<open>io.ReaderAt\<close>: a list of bytes. An
  \<^verbatim>\<open>io.SectionReader\<close> is a window of the source, kept here by its absolute bounds:
  a read through nested section readers sees exactly the bytes inside every enclosing
  window. The read position is an argument of each read, since the code seeks before
  it reads.
\<close>

type_synonym bytes = "8 word list"

record SectionReader =
  base :: nat
  limit :: nat

text \<open>\<^verbatim>\<open>1<<63 - 1\<close>, the length the code passes for an unbounded section.\<close>

definition maxInt64 :: nat where
  "maxInt64 = 2 ^ 63 - 1"

text \<open>\<^verbatim>\<open>io.NewSectionReader(r, 0, 1<<63-1)\<close> on the byte source itself.\<close>

definition rootReader :: SectionReader where
  "rootReader = \<lparr>base = 0, limit = maxInt64\<rparr>"

text \<open>\<^verbatim>\<open>io.NewSectionReader(r, off, n)\<close> on a section reader \<open>r\<close>.\<close>

definition NewSectionReader :: "SectionReader \<Rightarrow> nat \<Rightarrow> nat \<Rightarrow> SectionReader" where
  "NewSectionReader r off n =
     \<lparr>base = base r + off, limit = min (limit r) (base r + off + n)\<rparr>"

text \<open>
  The \<^verbatim>\<open>io.ReadFull\<close> inside \<^verbatim>\<open>binary.Read\<close>: \<open>n\<close> bytes at position \<open>pos\<close> of
  the section. A read of no bytes succeeds; otherwise the error is \<^verbatim>\<open>io.EOF\<close> when no
  byte is available and \<^verbatim>\<open>io.ErrUnexpectedEOF\<close> when some but not all are.
\<close>

definition readFull :: "bytes \<Rightarrow> SectionReader \<Rightarrow> nat \<Rightarrow> nat \<Rightarrow> error + bytes" where
  "readFull bs sr pos n =
    (let start = base sr + pos;
         avail = min (limit sr) (length bs) - start
     in if n \<le> avail then Inr (take n (drop start bs))
        else if avail = 0 then Inl EOF
        else Inl ErrUnexpectedEOF)"

text \<open>Little-endian integers at an index of a buffer that is long enough.\<close>

definition u8 :: "bytes \<Rightarrow> nat \<Rightarrow> 8 word" where
  "u8 b i = b ! i"

definition u16 :: "bytes \<Rightarrow> nat \<Rightarrow> 16 word" where
  "u16 b i = ucast (b ! i) OR push_bit 8 (ucast (b ! (i + 1)))"

definition u32 :: "bytes \<Rightarrow> nat \<Rightarrow> 32 word" where
  "u32 b i = ucast (b ! i) OR push_bit 8 (ucast (b ! (i + 1))) OR
     push_bit 16 (ucast (b ! (i + 2))) OR push_bit 24 (ucast (b ! (i + 3)))"

text \<open>
  What \<^verbatim>\<open>binary.Read\<close> stores in each struct: the fields in declaration order, without
  padding. The first argument is the buffer, the second the index where the struct
  starts.
\<close>

definition decode_ResChunkHeader :: "bytes \<Rightarrow> nat \<Rightarrow> ResChunkHeader" where
  "decode_ResChunkHeader b i =
     \<lparr>Type = u16 b i, HeaderSize = u16 b (i + 2), ResChunkHeader.Size = u32 b (i + 4)\<rparr>"

definition decode_ResTableHeader :: "bytes \<Rightarrow> ResTableHeader" where
  "decode_ResTableHeader b =
     \<lparr>ResTableHeader.Header = decode_ResChunkHeader b 0, PackageCount = u32 b 8\<rparr>"

definition decode_ResTablePackage :: "bytes \<Rightarrow> ResTablePackage" where
  "decode_ResTablePackage b =
     \<lparr>ResTablePackage.Header = decode_ResChunkHeader b 0,
      ResTablePackage.Id = u32 b 8,
      Name = map (\<lambda>k. u16 b (12 + 2 * k)) [0..<128],
      ResTablePackage.TypeStrings = u32 b 268,
      LastPublicType = u32 b 272,
      ResTablePackage.KeyStrings = u32 b 276,
      LastPublicKey = u32 b 280\<rparr>"

definition decode_ResTableConfig :: "bytes \<Rightarrow> nat \<Rightarrow> ResTableConfig" where
  "decode_ResTableConfig b i =
     \<lparr>ResTableConfig.Size = u32 b i, Mcc = u16 b (i + 4), Mnc = u16 b (i + 6),
      Language = (u8 b (i + 8), u8 b (i + 9)), Country = (u8 b (i + 10), u8 b (i + 11)),
      Orientation = u8 b (i + 12), Touchscreen = u8 b (i + 13), Density = u16 b (i + 14),
      Keyboard = u8 b (i + 16), Navigation = u8 b (i + 17), InputFlags = u8 b (i + 18),
      InputPad0 = u8 b (i + 19), ScreenWidth = u16 b (i + 20), ScreenHeight = u16 b (i + 22),
      SDKVersion = u16 b (i + 24), MinorVersion = u16 b (i + 26),
      ScreenLayout = u8 b (i + 28), UIMode = u8 b (i + 29),
      ScreenConfigPad1 = u8 b (i + 30), ScreenConfigPad2 = u8 b (i + 31)\<rparr>"

definition decode_ResTableType :: "bytes \<Rightarrow> ResTableType" where
  "decode_ResTableType b =
     \<lparr>ResTableType.Header = decode_ResChunkHeader b 0,
      ResTableType.Id = u8 b 8, ResTableType.Res0 = u8 b 9, ResTableType.Res1 = u16 b 10,
      ResTableType.EntryCount = u32 b 12, EntriesStart = u32 b 16,
      Config = decode_ResTableConfig b 20\<rparr>"

definition decode_ResTableTypeSpec :: "bytes \<Rightarrow> ResTableTypeSpec" where
  "decode_ResTableTypeSpec b =
     \<lparr>ResTableTypeSpec.Header = decode_ResChunkHeader b 0,
      ResTableTypeSpec.Id = u8 b 8, ResTableTypeSpec.Res0 = u8 b 9,
      ResTableTypeSpec.Res1 = u16 b 10, ResTableTypeSpec.EntryCount = u32 b 12\<rparr>"

definition decode_ResTableEntry :: "bytes \<Rightarrow> ResTableEntry" where
  "decode_ResTableEntry b =
     \<lparr>ResTableEntry.Size = u16 b 0, ResTableEntry.Flags = u16 b 2, ResTableEntry.Key = u32 b 4\<rparr>"

definition decode_ResValue :: "bytes \<Rightarrow> ResValue" where
  "decode_ResValue b =
     \<lparr>ResValue.Size = u16 b 0, ResValue.Res0 = u8 b 2, DataType = u8 b 3, Data = u32 b 4\<rparr>"

text \<open>\<^verbatim>\<open>binary.Read\<close> into a \<^verbatim>\<open>[]uint32\<close> of length \<open>n\<close> at position \<open>pos\<close>.\<close>

definition read_uint32s :: "bytes \<Rightarrow> SectionReader \<Rightarrow> nat \<Rightarrow> nat \<Rightarrow> error + 32 word list" where
  "read_uint32s bs sr pos n =
    (case readFull bs sr pos (4 * n) of
       Inl e \<Rightarrow> Inl e
     | Inr b \<Rightarrow> Inr (map (\<lambda>k. u32 b (4 * k)) [0..<n]))"

section \<open>The decoder\<close>

text \<open>
  The chunk-type constants are declared in another file of the package; the decoder
  takes them as a parameter.
\<close>

record chunk_types =
  RES_STRING_POOL_TYPE :: "16 word"
  RES_TABLE_PACKAGE_TYPE :: "16 word"
  RES_TABLE_TYPE_TYPE :: "16 word"
  RES_TABLE_TYPE_SPEC_TYPE :: "16 word"

text \<open>
  One iteration of the loop of \<^verbatim>\<open>readTableType\<close> over the entry index table. The
  sentinel leaves the slot as \<^verbatim>\<open>make\<close> created it. Otherwise the code seeks to
  \<^verbatim>\<open>EntriesStart + index\<close> (a \<^verbatim>\<open>uint32\<close> sum) and reads the key and then the value;
  it ignores the error of both reads, so a failed read leaves the zero struct behind a
  non-nil pointer. The value is read where the key read stopped, so it is read only if
  the key was.
\<close>

definition readEntry :: "bytes \<Rightarrow> SectionReader \<Rightarrow> ResTableType \<Rightarrow> 32 word \<Rightarrow> TableEntry" where
  "readEntry bs sr header index =
    (if index = 0xFFFFFFFF then \<lparr>TableEntry.Key = None, Value = None, TableEntry.Flags = 0\<rparr>
     else
       let pos = unat (EntriesStart header + index) in
       (case readFull bs sr pos 8 of
          Inl e \<Rightarrow>
            \<lparr>TableEntry.Key =
               Some \<lparr>ResTableEntry.Size = 0, ResTableEntry.Flags = 0, ResTableEntry.Key = 0\<rparr>,
             Value = Some \<lparr>ResValue.Size = 0, ResValue.Res0 = 0, DataType = 0, Data = 0\<rparr>,
             TableEntry.Flags = 0\<rparr>
        | Inr kb \<Rightarrow>
            \<lparr>TableEntry.Key = Some (decode_ResTableEntry kb),
             Value = Some (case readFull bs sr (pos + 8) 8 of
                 Inl e \<Rightarrow> \<lparr>ResValue.Size = 0, ResValue.Res0 = 0, DataType = 0, Data = 0\<rparr>
               | Inr vb \<Rightarrow> decode_ResValue vb),
             TableEntry.Flags = 0\<rparr>))"

text \<open>The entry index table that \<^verbatim>\<open>readTableType\<close> reads after the header.\<close>

definition readEntryIndexes :: "bytes \<Rightarrow> SectionReader \<Rightarrow> ResTableType \<Rightarrow> error + 32 word list" where
  "readEntryIndexes bs sr header =
     read_uint32s bs sr (unat (HeaderSize (ResTableType.Header header)))
       (unat (ResTableType.EntryCount header))"

definition readTableType :: "bytes \<Rightarrow> SectionReader \<Rightarrow> error + TableType" where
  "readTableType bs sr =
    (case readFull bs sr 0 52 of
       Inl e \<Rightarrow> Inl e
     | Inr hb \<Rightarrow>
        let header = decode_ResTableType hb in
        (case readEntryIndexes bs sr header of
           Inl e \<Rightarrow> Inl e
         | Inr entryIndexes \<Rightarrow>
            Inr \<lparr>TableType.Header = header,
                 Entries = map (readEntry bs sr header) entryIndexes\<rparr>))"

definition readTableTypeSpec :: "bytes \<Rightarrow> SectionReader \<Rightarrow> error + 32 word list" where
  "readTableTypeSpec bs sr =
    (case readFull bs sr 0 16 of
       Inl e \<Rightarrow> Inl e
     | Inr hb \<Rightarrow>
        let header = decode_ResTableTypeSpec hb in
        read_uint32s bs sr (unat (HeaderSize (ResTableTypeSpec.Header header)))
          (unat (ResTableTypeSpec.EntryCount header)))"

text \<open>
  The chunk loop of \<^verbatim>\<open>readTablePackage\<close>, with the package under construction and
  \<^verbatim>\<open>offset\<close> as arguments. Nothing bounds the number of iterations, so the loop is a
  partial function: \<open>None\<close> is a run that never returns.
\<close>

partial_function (option) readTablePackage_loop ::
  "chunk_types \<Rightarrow> bytes \<Rightarrow> SectionReader \<Rightarrow> 'sp TablePackage \<Rightarrow> nat
    \<Rightarrow> (error + 'sp TablePackage) option"
where [code]:
  "readTablePackage_loop ct bs sr tablePackage offset =
    (if offset < unat (ResChunkHeader.Size (ResTablePackage.Header (TablePackage.Header tablePackage)))
     then
       (case readFull bs sr offset 8 of
          Inl e \<Rightarrow> Some (Inl e)
        | Inr hb \<Rightarrow>
           let chunkHeader = decode_ResChunkHeader hb 0;
               chunkReader = NewSectionReader sr offset (unat (ResChunkHeader.Size chunkHeader))
           in
           if Type chunkHeader = RES_TABLE_TYPE_TYPE ct then
             (case readTableType bs chunkReader of
                Inl e \<Rightarrow> Some (Inl e)
              | Inr tableType \<Rightarrow>
                 readTablePackage_loop ct bs sr
                   (tablePackage\<lparr>TableTypes := TableTypes tablePackage @ [tableType]\<rparr>)
                   (offset + unat (ResChunkHeader.Size chunkHeader)))
           else if Type chunkHeader = RES_TABLE_TYPE_SPEC_TYPE ct then
             (case readTableTypeSpec bs chunkReader of
                Inl e \<Rightarrow> Some (Inl e)
              | Inr flags \<Rightarrow>
                 readTablePackage_loop ct bs sr tablePackage
                   (offset + unat (ResChunkHeader.Size chunkHeader)))
           else
             readTablePackage_loop ct bs sr tablePackage
               (offset + unat (ResChunkHeader.Size chunkHeader)))
     else Some (Inr tablePackage))"

text \<open>
  \<^verbatim>\<open>readStringPool\<close> belongs to the string-pool decoder; it is a parameter that
  receives the byte source and the section reader it is called on.
\<close>

definition readTablePackage ::
  "chunk_types \<Rightarrow> (bytes \<Rightarrow> SectionReader \<Rightarrow> error + 'sp) \<Rightarrow> bytes \<Rightarrow> SectionReader
    \<Rightarrow> (error + 'sp TablePackage) option" where
  "readTablePackage ct readStringPool bs sr =
    (case readFull bs sr 0 284 of
       Inl e \<Rightarrow> Some (Inl e)
     | Inr hb \<Rightarrow>
        let header = decode_ResTablePackage hb;
            srTypes = NewSectionReader sr (unat (ResTablePackage.TypeStrings header))
              (unat (ResChunkHeader.Size (ResTablePackage.Header header)
                 - ResTablePackage.TypeStrings header))
        in
        (case readStringPool bs srTypes of
           Inl e \<Rightarrow> Some (Inl e)
         | Inr typeStrings \<Rightarrow>
            let srKeys = NewSectionReader sr (unat (ResTablePackage.KeyStrings header))
              (unat (ResChunkHeader.Size (ResTablePackage.Header header)
                 - ResTablePackage.KeyStrings header))
            in
            (case readStringPool bs srKeys of
               Inl e \<Rightarrow> Some (Inl e)
             | Inr keyStrings \<Rightarrow>
                readTablePackage_loop ct bs sr
                  \<lparr>TablePackage.Header = header, TablePackage.TypeStrings = Some typeStrings,
                   TablePackage.KeyStrings = Some keyStrings, TableTypes = []\<rparr>
                  (unat (HeaderSize (ResTablePackage.Header header))))))"

text \<open>
  \<^verbatim>\<open>readChunk\<close> returns the updated table with the chunk header. When
  \<^verbatim>\<open>readTablePackage\<close> fails, its nil result is dereferenced
  (\<^verbatim>\<open>tablePackage.Header.Id\<close>) before the error is looked at: a panic.
\<close>

definition readChunk ::
  "chunk_types \<Rightarrow> (bytes \<Rightarrow> SectionReader \<Rightarrow> error + 'sp) \<Rightarrow> bytes \<Rightarrow> 'sp TableFile \<Rightarrow> nat
    \<Rightarrow> (fault + (error + 'sp TableFile \<times> ResChunkHeader)) option" where
  "readChunk ct readStringPool bs f offset =
    (let sr = NewSectionReader rootReader offset (maxInt64 - offset) in
     case readFull bs sr 0 8 of
       Inl e \<Rightarrow> Some (Inr (Inl e))
     | Inr hb \<Rightarrow>
        let chunkHeader = decode_ResChunkHeader hb 0 in
        if Type chunkHeader = RES_STRING_POOL_TYPE ct then
          (case readStringPool bs sr of
             Inl e \<Rightarrow> Some (Inr (Inl e))
           | Inr pool \<Rightarrow> Some (Inr (Inr (f\<lparr>stringPool := Some pool\<rparr>, chunkHeader))))
        else if Type chunkHeader = RES_TABLE_PACKAGE_TYPE ct then
          (case readTablePackage ct readStringPool bs sr of
             None \<Rightarrow> None
           | Some (Inl e) \<Rightarrow> Some (Inl NilDereference)
           | Some (Inr tablePackage) \<Rightarrow>
              Some (Inr (Inr
                (f\<lparr>tablePackages := (tablePackages f)
                     (ResTablePackage.Id (TablePackage.Header tablePackage) \<mapsto> tablePackage)\<rparr>,
                 chunkHeader))))
        else Some (Inr (Inr (f, chunkHeader))))"

text \<open>
  The chunk loop of \<^verbatim>\<open>NewTableFile\<close>: \<open>tsize\<close> is \<^verbatim>\<open>int64(header.Header.Size)\<close>.
  The offset advances by the declared size of the chunk it has just read, whatever that
  size is.
\<close>

partial_function (option) NewTableFile_loop ::
  "chunk_types \<Rightarrow> (bytes \<Rightarrow> SectionReader \<Rightarrow> error + 'sp) \<Rightarrow> bytes \<Rightarrow> nat \<Rightarrow> 'sp TableFile \<Rightarrow> nat
    \<Rightarrow> (fault + (error + 'sp TableFile)) option"
where [code]:
  "NewTableFile_loop ct readStringPool bs tsize f offset =
    (if offset < tsize then
       (case readChunk ct readStringPool bs f offset of
          None \<Rightarrow> None
        | Some (Inl p) \<Rightarrow> Some (Inl p)
        | Some (Inr (Inl e)) \<Rightarrow> Some (Inr (Inl e))
        | Some (Inr (Inr (f', chunkHeader))) \<Rightarrow>
           NewTableFile_loop ct readStringPool bs tsize f'
             (offset + unat (ResChunkHeader.Size chunkHeader)))
     else Some (Inr (Inr f)))"

text \<open>
  The first statements of \<^verbatim>\<open>NewTableFile\<close>. The error of this \<^verbatim>\<open>binary.Read\<close> is
  ignored: when the source is shorter than the table header, the header keeps its zero
  value.
\<close>

definition readTableHeader :: "bytes \<Rightarrow> ResTableHeader" where
  "readTableHeader bs =
    (case readFull bs rootReader 0 12 of
       Inl e \<Rightarrow> \<lparr>ResTableHeader.Header = \<lparr>Type = 0, HeaderSize = 0, ResChunkHeader.Size = 0\<rparr>,
                  PackageCount = 0\<rparr>
     | Inr hb \<Rightarrow> decode_ResTableHeader hb)"

text \<open>\<^verbatim>\<open>new(TableFile)\<close> with the empty package map.\<close>

definition newTableFile :: "'sp TableFile" where
  "newTableFile = \<lparr>stringPool = None, tablePackages = Map.empty\<rparr>"

definition NewTableFile ::
  "chunk_types \<Rightarrow> (bytes \<Rightarrow> SectionReader \<Rightarrow> error + 'sp) \<Rightarrow> bytes
    \<Rightarrow> (fault + (error + 'sp TableFile)) option" where
  "NewTableFile ct readStringPool bs =
    (let header = readTableHeader bs
     in NewTableFile_loop ct readStringPool bs
          (unat (ResChunkHeader.Size (ResTableHeader.Header header)))
          newTableFile
          (unat (HeaderSize (ResTableHeader.Header header))))"

text \<open>
  The state \<^verbatim>\<open>(f, offset)\<close> of the loop of \<^verbatim>\<open>NewTableFile\<close> after \<open>n\<close> complete
  iterations from a given state; \<open>None\<close> when the loop has left before. It says which
  chunks the walk encounters.
\<close>

fun NewTableFile_walk ::
  "chunk_types \<Rightarrow> (bytes \<Rightarrow> SectionReader \<Rightarrow> error + 'sp) \<Rightarrow> bytes \<Rightarrow> nat \<Rightarrow> nat
    \<Rightarrow> 'sp TableFile \<Rightarrow> nat \<Rightarrow> ('sp TableFile \<times> nat) option"
where
  "NewTableFile_walk ct readStringPool bs tsize 0 f offset = Some (f, offset)"
| "NewTableFile_walk ct readStringPool bs tsize (Suc n) f offset =
    (if offset < tsize then
       (case readChunk ct readStringPool bs f offset of
          Some (Inr (Inr (f', chunkHeader))) \<Rightarrow>
            NewTableFile_walk ct readStringPool bs tsize n f'
              (offset + unat (ResChunkHeader.Size chunkHeader))
        | _ \<Rightarrow> None)
     else None)"

section \<open>Example inputs\<close>

text \<open>
  The constants of the Android resource table format, for the chunk types and the value
  types that the functions take as parameters.
\<close>

definition android_chunk_types :: chunk_types where
  "android_chunk_types = \<lparr>RES_STRING_POOL_TYPE = 0x0001, RES_TABLE_PACKAGE_TYPE = 0x0200,
     RES_TABLE_TYPE_TYPE = 0x0201, RES_TABLE_TYPE_SPEC_TYPE = 0x0202\<rparr>"

definition android_value_types :: value_types where
  "android_value_types = \<lparr>TYPE_NULL = 0x00, TYPE_STRING = 0x03, TYPE_INT_DEC = 0x10,
     TYPE_INT_HEX = 0x11, TYPE_INT_BOOLEAN = 0x12\<rparr>"

text \<open>
  A string pool for the examples: the list of its strings. Its decoder is not used by
  the examples and rejects every input; its lookup panics on a nil pool and on an index
  outside the pool.
\<close>

definition example_readStringPool :: "bytes \<Rightarrow> SectionReader \<Rightarrow> error + string list" where
  "example_readStringPool bs sr = Inl StringPoolError"

definition example_poolGetString :: "string list option \<Rightarrow> ResStringPoolRef \<Rightarrow> fault + string" where
  "example_poolGetString pool ref =
    (case pool of
       None \<Rightarrow> Inl NilDereference
     | Some strings \<Rightarrow>
        if unat ref < length strings then Inr (strings ! unat ref) else Inl IndexOutOfRange)"

text \<open>
  A table of 28 bytes: the table header (header size 12, total size 28, no package), a
  chunk of an unknown type (0) with header size 8 and total size 8, and a second chunk of
  that type with header size 8 and declared total size 0.
\<close>

definition zero_size_chunk_table :: bytes where
  "zero_size_chunk_table =
     [0x02, 0x00, 0x0C, 0x00, 0x1C, 0x00, 0x00, 0x00, 0x00, 0x00, 0x00, 0x00,
      0x00, 0x00, 0x08, 0x00, 0x08, 0x00, 0x00, 0x00,
      0x00, 0x00, 0x08, 0x00, 0x00, 0x00, 0x00, 0x00]"

text \<open>
  A type chunk of 76 bytes: type id 1, the all-zero configuration (declared record size
  32), two entries: index 0 holds a string value with payload 0, index 1 is the sentinel.
\<close>

definition example_type_chunk :: bytes where
  "example_type_chunk =
     [0x01, 0x02, 0x34, 0x00, 0x4C, 0x00, 0x00, 0x00,
      0x01, 0x00, 0x00, 0x00,
      0x02, 0x00, 0x00, 0x00,
      0x3C, 0x00, 0x00, 0x00,
      0x20, 0x00, 0x00, 0x00, 0x00, 0x00, 0x00, 0x00, 0x00, 0x00, 0x00, 0x00,
      0x00, 0x00, 0x00, 0x00, 0x00, 0x00, 0x00, 0x00, 0x00, 0x00, 0x00, 0x00,
      0x00, 0x00, 0x00, 0x00, 0x00, 0x00, 0x00, 0x00,
      0x00, 0x00, 0x00, 0x00,
      0xFF, 0xFF, 0xFF, 0xFF,
      0x08, 0x00, 0x00, 0x00, 0x00, 0x00, 0x00, 0x00,
      0x08, 0x00, 0x00, 0x03, 0x00, 0x00, 0x00, 0x00]"

text \<open>The type that \<^verbatim>\<open>readTableType\<close> decodes from that chunk.\<close>

definition example_type :: TableType where
  "example_type =
     \<lparr>TableType.Header =
        \<lparr>ResTableType.Header = \<lparr>Type = 0x0201, HeaderSize = 52, ResChunkHeader.Size = 76\<rparr>,
         ResTableType.Id = 1, ResTableType.Res0 = 0, ResTableType.Res1 = 0,
         ResTableType.EntryCount = 2, EntriesStart = 60,
         Config = zero_config\<lparr>ResTableConfig.Size := 32\<rparr>\<rparr>,
      Entries =
        [\<lparr>TableEntry.Key =
            Some \<lparr>ResTableEntry.Size = 8, ResTableEntry.Flags = 0, ResTableEntry.Key = 0\<rparr>,
          Value = Some \<lparr>ResValue.Size = 8, ResValue.Res0 = 0, DataType = 3, Data = 0\<rparr>,
          TableEntry.Flags = 0\<rparr>,
         \<lparr>TableEntry.Key = None, Value = None, TableEntry.Flags = 0\<rparr>]\<rparr>"

text \<open>
  A second variant of type 1 with the same configuration, whose entry 0 holds the
  decimal integer 7.
\<close>

definition example_type_late :: TableType where
  "example_type_late =
     example_type\<lparr>Entries :=
        [\<lparr>TableEntry.Key =
            Some \<lparr>ResTableEntry.Size = 8, ResTableEntry.Flags = 0, ResTableEntry.Key = 0\<rparr>,
          Value = Some \<lparr>ResValue.Size = 8, ResValue.Res0 = 0, DataType = 0x10, Data = 7\<rparr>,
          TableEntry.Flags = 0\<rparr>]\<rparr>"

text \<open>A third variant of type 1, for the language \<^verbatim>\<open>fr\<close>, whose entry 0 holds 9.\<close>

definition example_type_fr :: TableType where
  "example_type_fr =
     \<lparr>TableType.Header =
        \<lparr>ResTableType.Header = \<lparr>Type = 0x0201, HeaderSize = 52, ResChunkHeader.Size = 72\<rparr>,
         ResTableType.Id = 1, ResTableType.Res0 = 0, ResTableType.Res1 = 0,
         ResTableType.EntryCount = 1, EntriesStart = 56,
         Config = zero_config\<lparr>ResTableConfig.Size := 32, Language := (0x66, 0x72)\<rparr>\<rparr>,
      Entries =
        [\<lparr>TableEntry.Key =
            Some \<lparr>ResTableEntry.Size = 8, ResTableEntry.Flags = 0, ResTableEntry.Key = 0\<rparr>,
          Value = Some \<lparr>ResValue.Size = 8, ResValue.Res0 = 0, DataType = 0x10, Data = 9\<rparr>,
          TableEntry.Flags = 0\<rparr>]\<rparr>"

definition example_package_header :: ResTablePackage where
  "example_package_header =
     \<lparr>ResTablePackage.Header = \<lparr>Type = 0x0200, HeaderSize = 284, ResChunkHeader.Size = 360\<rparr>,
      ResTablePackage.Id = 1, Name = replicate 128 0, ResTablePackage.TypeStrings = 284,
      LastPublicType = 0, ResTablePackage.KeyStrings = 284, LastPublicKey = 0\<rparr>"

text \<open>A package with id 1 that holds the one type, and a table that holds the package.\<close>

definition example_package :: "string list TablePackage" where
  "example_package =
     \<lparr>TablePackage.Header = example_package_header,
      TablePackage.TypeStrings = Some [], TablePackage.KeyStrings = Some [],
      TableTypes = [example_type]\<rparr>"

definition example_table :: "string list TableFile" where
  "example_table =
     \<lparr>stringPool = Some [''hello''], tablePackages = [1 \<mapsto> example_package]\<rparr>"

text \<open>Configurations for the examples: the language \<^verbatim>\<open>fr\<close>, and single-axis variants.\<close>

definition fr_config :: ResTableConfig where
  "fr_config = zero_config\<lparr>Language := (0x66, 0x72)\<rparr>"

definition mcc_config :: "16 word \<Rightarrow> ResTableConfig" where
  "mcc_config n = zero_config\<lparr>Mcc := n\<rparr>"

definition orientation_config :: "8 word \<Rightarrow> ResTableConfig" where
  "orientation_config n = zero_config\<lparr>Orientation := n\<rparr>"

definition sdk_config :: "16 word \<Rightarrow> ResTableConfig" where
  "sdk_config n = zero_config\<lparr>SDKVersion := n\<rparr>"

definition minor_config :: "16 word \<Rightarrow> ResTableConfig" where
  "minor_config n = zero_config\<lparr>MinorVersion := n\<rparr>"

lemmas decode_defs = decode_ResTableType_def decode_ResChunkHeader_def
      decode_ResTableConfig_def u8_def u16_def u32_def decode_ResTableEntry_def decode_ResValue_def
      decode_ResTableHeader_def
lemmas reader_defs = readFull_def NewSectionReader_def rootReader_def maxInt64_def

section \<open>Properties of the configuration comparison\<close>

lemma Match_Mcc: "Match c r \<Longrightarrow> Mcc r \<noteq> 0 \<Longrightarrow> Mcc c = 0 \<or> Mcc c = Mcc r"
  unfolding Match_def by (elim conjE) metis

lemma Match_Mnc: "Match c r \<Longrightarrow> Mnc r \<noteq> 0 \<Longrightarrow> Mnc c = 0 \<or> Mnc c = Mnc r"
  unfolding Match_def by (elim conjE) metis

lemma Match_Language:
  "Match c r \<Longrightarrow> fst (Language r) \<noteq> 0 \<Longrightarrow>
   fst (Language c) = 0 \<or> fst (Language c) = fst (Language r)"
  unfolding Match_def by (elim conjE) metis

lemma Match_Country:
  "Match c r \<Longrightarrow> fst (Country r) \<noteq> 0 \<Longrightarrow>
   fst (Country c) = 0 \<or> fst (Country c) = fst (Country r)"
  unfolding Match_def by (elim conjE) metis

lemma Match_ScreenWidth:
  "Match c r \<Longrightarrow> ScreenWidth r \<noteq> 0 \<Longrightarrow> ScreenWidth c = 0 \<or> ScreenWidth c = ScreenWidth r"
  unfolding Match_def by (elim conjE) metis

lemma Match_ScreenHeight:
  "Match c r \<Longrightarrow> ScreenHeight r \<noteq> 0 \<Longrightarrow> ScreenHeight c = 0 \<or> ScreenHeight c = ScreenHeight r"
  unfolding Match_def by (elim conjE) metis

text \<open>
  Two runs of the same chain of tests, with equivalent conditions, do not both answer
  yes if they do not at the first test and do not in the rest of the chain.
\<close>

lemma not_both_chain:
  "c' = c \<Longrightarrow> (c \<Longrightarrow> \<not> (x \<and> y)) \<Longrightarrow> \<not> (p \<and> q) \<Longrightarrow>
   \<not> ((if c then x else p) \<and> (if c' then y else q))"
  by simp

lemma not_both_version:
  assumes "MinorVersion a = 0 \<or> MinorVersion b = 0 \<or> MinorVersion a = MinorVersion b"
  shows "\<not> ((if version_live a b \<and> SDKVersion a \<noteq> SDKVersion b \<and> SDKVersion r \<noteq> 0
         then SDKVersion a > SDKVersion b
       else if version_live a b \<and> MinorVersion a \<noteq> MinorVersion b then MinorVersion a \<noteq> 0
       else False) \<and>
      (if version_live b a \<and> SDKVersion b \<noteq> SDKVersion a \<and> SDKVersion r \<noteq> 0
         then SDKVersion b > SDKVersion a
       else if version_live b a \<and> MinorVersion b \<noteq> MinorVersion a then MinorVersion b \<noteq> 0
       else False))"
proof (cases "SDKVersion a \<noteq> SDKVersion b \<and> SDKVersion r \<noteq> 0")
  case True
  then show ?thesis by (auto simp: not_less dest: less_imp_le)
next
  case False
  then show ?thesis using assms by auto
qed

lemmas config_defs = zero_config_def fr_config_def mcc_config_def orientation_config_def
  sdk_config_def minor_config_def

lemmas live_defs = imsi_live_def locale_live_def screen_size_live_def version_live_def

text \<open>
  Claim C1, amended. For a reference configuration \<open>r\<close> and two candidates \<open>a\<close> and
  \<open>b\<close> that both \<open>Match\<close> it, of which at most one specifies an orientation and which
  do not specify two different minor versions, \<open>IsBetterThan a b r\<close> and
  \<open>IsBetterThan b a r\<close> are never both true.
\<close>

theorem IsBetterThan_not_both:
  assumes ma: "Match a r" and mb: "Match b r"
    and ori: "Orientation a = 0 \<or> Orientation b = 0"
    and mnr: "MinorVersion a = 0 \<or> MinorVersion b = 0 \<or> MinorVersion a = MinorVersion b"
  shows "\<not> (IsBetterThan a b (Some r) \<and> IsBetterThan b a (Some r))"
proof -
  have "\<not> (IsBetterThan_ref a b r \<and> IsBetterThan_ref b a r)"
    unfolding IsBetterThan_ref_def
    apply (rule not_both_chain)
      apply (auto simp: imsi_live_def)[1]
     apply (metis Match_Mcc [OF ma] Match_Mcc [OF mb])
    apply (rule not_both_chain)
      apply (auto simp: imsi_live_def)[1]
     apply (metis Match_Mnc [OF ma] Match_Mnc [OF mb])
    apply (rule not_both_chain)
      apply (auto simp: locale_live_def)[1]
     apply (metis Match_Language [OF ma] Match_Language [OF mb])
    apply (rule not_both_chain)
      apply (auto simp: locale_live_def)[1]
     apply (metis Match_Country [OF ma] Match_Country [OF mb])
    apply (rule not_both_chain)
      apply auto[1]
     apply (use ori in blast)
    apply (rule not_both_chain)
      apply (auto simp: screen_size_live_def)[1]
     apply (metis Match_ScreenWidth [OF ma] Match_ScreenWidth [OF mb])
    apply (rule not_both_chain)
      apply (auto simp: screen_size_live_def)[1]
     apply (metis Match_ScreenHeight [OF ma] Match_ScreenHeight [OF mb])
    apply (rule not_both_version [OF mnr])
    done
  then show ?thesis by (simp add: IsBetterThan_def)
qed

text \<open>
  The theorem at the reference \<^verbatim>\<open>fr\<close>, the candidate \<^verbatim>\<open>fr\<close> and the unqualified
  candidate.
\<close>

theorem IsBetterThan_not_both_witness:
  "Match fr_config fr_config \<and> Match zero_config fr_config \<and>
   (Orientation fr_config = 0 \<or> Orientation zero_config = 0) \<and>
   (MinorVersion fr_config = 0 \<or> MinorVersion zero_config = 0 \<or>
     MinorVersion fr_config = MinorVersion zero_config) \<and>
   \<not> (IsBetterThan fr_config zero_config (Some fr_config) \<and>
      IsBetterThan zero_config fr_config (Some fr_config))"
  using IsBetterThan_not_both [of fr_config fr_config zero_config]
  by (simp add: Match_def config_defs)

text \<open>
  Without the restriction to matching candidates the property fails: for the reference
  with mcc 1, the candidates with mcc 1 and mcc 2 are each better than the other.
\<close>

theorem IsBetterThan_both_counterexample:
  "IsBetterThan (mcc_config 1) (mcc_config 2) (Some (mcc_config 1)) \<and>
   IsBetterThan (mcc_config 2) (mcc_config 1) (Some (mcc_config 1))"
  by (simp add: IsBetterThan_def IsBetterThan_ref_def live_defs config_defs)

text \<open>
  The two other premises are needed as well. Two matching candidates that both specify
  an orientation are each better than the other when the reference specifies one, even
  if they are the same configuration; and so are two matching candidates with different
  minor versions.
\<close>

lemma IsBetterThan_both_orientation:
  "Match (orientation_config 1) (orientation_config 1) \<and>
   IsBetterThan (orientation_config 1) (orientation_config 1) (Some (orientation_config 1))"
  by (simp add: Match_def IsBetterThan_def IsBetterThan_ref_def live_defs config_defs)

lemma IsBetterThan_both_minor_version:
  "Match (minor_config 1) zero_config \<and> Match (minor_config 2) zero_config \<and>
   IsBetterThan (minor_config 1) (minor_config 2) (Some zero_config) \<and>
   IsBetterThan (minor_config 2) (minor_config 1) (Some zero_config)"
  by (simp add: Match_def IsBetterThan_def IsBetterThan_ref_def live_defs config_defs)

text \<open>
  Claim C5, amended. When the requested configuration has every axis unspecified,
  \<open>Match c requested\<close> holds exactly when the candidate leaves mcc and mnc unspecified;
  its language, country, screen size and versions are not looked at.
\<close>

theorem Match_unspecified_request:
  "all_unspecified r \<Longrightarrow> Match c r \<longleftrightarrow> Mcc c = 0 \<and> Mnc c = 0"
  by (simp add: all_unspecified_def Match_def)

theorem Match_unspecified_request_witness:
  "all_unspecified zero_config \<and>
   (Match (mcc_config 310) zero_config \<longleftrightarrow>
      Mcc (mcc_config 310) = 0 \<and> Mnc (mcc_config 310) = 0) \<and>
   \<not> Match (mcc_config 310) zero_config"
  using Match_unspecified_request [of zero_config "mcc_config 310"]
  by (simp add: all_unspecified_def config_defs)

text \<open>
  The candidate that specifies the language \<^verbatim>\<open>fr\<close> matches the all-unspecified
  request.
\<close>

theorem Match_unspecified_request_counterexample:
  "all_unspecified zero_config \<and> Match fr_config zero_config \<and> fst (Language fr_config) \<noteq> 0"
  by (simp add: all_unspecified_def Match_def config_defs)

text \<open>
  Claim C6, amended. If the requested configuration specifies an SDK version and the
  candidate specifies a strictly greater one, then \<open>Match\<close> is false.
\<close>

theorem Match_sdk_version_greater:
  "SDKVersion r \<noteq> 0 \<Longrightarrow> SDKVersion r < SDKVersion c \<Longrightarrow> \<not> Match c r"
  unfolding Match_def by (metis word_gt_0 less_trans)

theorem Match_sdk_version_greater_witness:
  "SDKVersion (sdk_config 4) \<noteq> 0 \<and> SDKVersion (sdk_config 4) < SDKVersion (sdk_config 5) \<and>
   \<not> Match (sdk_config 5) (sdk_config 4)"
  using Match_sdk_version_greater [of "sdk_config 4" "sdk_config 5"]
  by (simp add: config_defs)

text \<open>
  A request that leaves the SDK version unspecified accepts the candidate with SDK
  version 5.
\<close>

theorem Match_sdk_version_counterexample:
  "SDKVersion (sdk_config 5) \<noteq> 0 \<and> SDKVersion zero_config < SDKVersion (sdk_config 5) \<and>
   Match (sdk_config 5) zero_config"
  by (simp add: Match_def config_defs)

text \<open>
  Claim C7, at the failing input. The candidate specifies minor version 1 and nothing
  else, the other configuration specifies nothing, and no other axis differs; the
  candidate is not better, whether or not the reference specifies the minor version.
\<close>

theorem IsBetterThan_minor_version_not_preferred:
  "MinorVersion (minor_config 1) \<noteq> 0 \<and> MinorVersion zero_config = 0 \<and>
   \<not> IsBetterThan (minor_config 1) zero_config (Some zero_config) \<and>
   \<not> IsBetterThan (minor_config 1) zero_config (Some (minor_config 1))"
  by (simp add: IsBetterThan_def IsBetterThan_ref_def live_defs config_defs)

text \<open>
  Claim C8. A candidate with every axis unspecified matches every requested
  configuration.
\<close>

theorem Match_all_unspecified_candidate:
  "all_unspecified c \<Longrightarrow> Match c r"
  by (simp add: all_unspecified_def Match_def)

theorem Match_all_unspecified_candidate_witness:
  "all_unspecified zero_config \<and> Match zero_config fr_config"
  using Match_all_unspecified_candidate [of zero_config fr_config]
  by (simp add: all_unspecified_def config_defs)

section \<open>Properties of the resolution\<close>

lemmas example_defs = example_table_def example_package_def example_type_def
  example_type_late_def example_type_fr_def example_poolGetString_def android_value_types_def

lemmas resolve_defs = GetResource_def findPackage_def Package_def Type'_def Entry_def
  findType_def GetString_def

text \<open>
  Claim C2, amended. When the package field of the resource id names no package of the
  table, \<open>GetResource\<close> returns no result at all: it panics on the nil package.
\<close>

theorem GetResource_unknown_package_panics:
  "findPackage f (Package rid) = None \<Longrightarrow>
   GetResource tags poolGetString f rid config = Inl NilDereference"
  by (simp add: GetResource_def)

theorem GetResource_unknown_package_panics_witness:
  "findPackage example_table (Package 0x02010000) = None \<and>
   GetResource android_value_types example_poolGetString example_table 0x02010000
     (Some zero_config) = Inl NilDereference"
  using GetResource_unknown_package_panics [where f = example_table and rid = "0x02010000"
      and tags = android_value_types and poolGetString = example_poolGetString
      and config = "Some zero_config"]
  by (simp add: findPackage_def Package_def example_table_def)

text \<open>The example table has no package 0x7F; resolving an id of that package panics.\<close>

theorem GetResource_unknown_package_counterexample:
  "findPackage example_table (Package 0x7F010000) = None \<and>
   GetResource android_value_types example_poolGetString example_table 0x7F010000
     (Some zero_config) = Inl NilDereference"
  by (simp add: resolve_defs example_table_def)

lemma readTableType_Entries:
  "readTableType bs sr = Inr t \<Longrightarrow> readEntryIndexes bs sr (TableType.Header t) = Inr entryIndexes \<Longrightarrow>
   Entries t = map (readEntry bs sr (TableType.Header t)) entryIndexes"
  by (auto simp: readTableType_def Let_def split: sum.splits)

lemma readTableType_example_type_chunk:
  "readTableType example_type_chunk (NewSectionReader rootReader 0 76) = Inr example_type"
  by (simp add: readTableType_def reader_defs example_type_chunk_def decode_defs
      readEntryIndexes_def read_uint32s_def readEntry_def example_type_def zero_config_def upt_rec)

lemma readEntryIndexes_example_type_chunk:
  "readEntryIndexes example_type_chunk (NewSectionReader rootReader 0 76)
     (TableType.Header example_type) = Inr [0, 0xFFFFFFFF]"
  by (simp add: reader_defs example_type_chunk_def decode_defs
      readEntryIndexes_def read_uint32s_def example_type_def upt_rec)

lemma findType_example_package:
  "findType example_package 1 (Some zero_config) = Inr (Some example_type)"
  by (simp add: findType_def example_package_def example_type_def Match_def zero_config_def)

text \<open>
  Claim C3, amended. When the package is found and a type variant \<open>t\<close> is selected,
  an entry index outside the entry slots of \<open>t\<close> makes \<open>GetResource\<close> panic with an
  index out of range, and a slot that \<open>readTableType\<close> left empty for the sentinel
  \<open>0xFFFFFFFF\<close> makes it panic on the nil value; in neither case is a result returned.
\<close>

theorem GetResource_unknown_entry_panics:
  assumes "findPackage f (Package rid) = Some p"
    and "findType p (Type' rid) config = Inr (Some t)"
  shows "(length (Entries t) \<le> nat (Entry rid) \<longrightarrow>
      GetResource tags poolGetString f rid config = Inl IndexOutOfRange) \<and>
    (readTableType bs sr = Inr t \<and>
     readEntryIndexes bs sr (TableType.Header t) = Inr entryIndexes \<and>
     nat (Entry rid) < length entryIndexes \<and>
     entryIndexes ! nat (Entry rid) = 0xFFFFFFFF \<longrightarrow>
      GetResource tags poolGetString f rid config = Inl NilDereference)"
proof (intro conjI impI)
  assume "length (Entries t) \<le> nat (Entry rid)"
  with assms show "GetResource tags poolGetString f rid config = Inl IndexOutOfRange"
    by (simp add: GetResource_def)
next
  assume h: "readTableType bs sr = Inr t \<and>
     readEntryIndexes bs sr (TableType.Header t) = Inr entryIndexes \<and>
     nat (Entry rid) < length entryIndexes \<and>
     entryIndexes ! nat (Entry rid) = 0xFFFFFFFF"
  then have e: "Entries t = map (readEntry bs sr (TableType.Header t)) entryIndexes"
    by (simp add: readTableType_Entries)
  with h have "nat (Entry rid) < length (Entries t)"
    and "Value (Entries t ! nat (Entry rid)) = None"
    by (simp_all add: readEntry_def)
  with assms show "GetResource tags poolGetString f rid config = Inl NilDereference"
    by (simp add: GetResource_def)
qed

theorem GetResource_unknown_entry_panics_witness:
  "findPackage example_table (Package 0x01010001) = Some example_package \<and>
   findType example_package (Type' 0x01010001) (Some zero_config) = Inr (Some example_type) \<and>
   readTableType example_type_chunk (NewSectionReader rootReader 0 76) = Inr example_type \<and>
   readEntryIndexes example_type_chunk (NewSectionReader rootReader 0 76)
     (TableType.Header example_type) = Inr [0, 0xFFFFFFFF] \<and>
   nat (Entry 0x01010001) < length [0, 0xFFFFFFFF :: 32 word] \<and>
   [0, 0xFFFFFFFF :: 32 word] ! nat (Entry 0x01010001) = 0xFFFFFFFF \<and>
   GetResource android_value_types example_poolGetString example_table 0x01010001
     (Some zero_config) = Inl NilDereference \<and>
   findPackage example_table (Package 0x01010005) = Some example_package \<and>
   findType example_package (Type' 0x01010005) (Some zero_config) = Inr (Some example_type) \<and>
   length (Entries example_type) \<le> nat (Entry 0x01010005) \<and>
   GetResource android_value_types example_poolGetString example_table 0x01010005
     (Some zero_config) = Inl IndexOutOfRange"
proof -
  have p1: "findPackage example_table (Package 0x01010001) = Some example_package"
    by (simp add: findPackage_def Package_def example_table_def)
  have t1: "findType example_package (Type' 0x01010001) (Some zero_config)
      = Inr (Some example_type)"
    by (simp add: Type'_def findType_example_package)
  have l1: "nat (Entry 0x01010001) < length [0, 0xFFFFFFFF :: 32 word]"
    by (simp add: Entry_def)
  have n1: "[0, 0xFFFFFFFF :: 32 word] ! nat (Entry 0x01010001) = 0xFFFFFFFF"
    by (simp add: Entry_def)
  have s1: "GetResource android_value_types example_poolGetString example_table 0x01010001
      (Some zero_config) = Inl NilDereference"
    using GetResource_unknown_entry_panics [OF p1 t1, where bs = example_type_chunk
        and sr = "NewSectionReader rootReader 0 76" and entryIndexes = "[0, 0xFFFFFFFF]"
        and tags = android_value_types and poolGetString = example_poolGetString]
      readTableType_example_type_chunk readEntryIndexes_example_type_chunk l1 n1
    by blast
  have p5: "findPackage example_table (Package 0x01010005) = Some example_package"
    by (simp add: findPackage_def Package_def example_table_def)
  have t5: "findType example_package (Type' 0x01010005) (Some zero_config)
      = Inr (Some example_type)"
    by (simp add: Type'_def findType_example_package)
  have l5: "length (Entries example_type) \<le> nat (Entry 0x01010005)"
    by (simp add: Entry_def example_type_def)
  have s5: "GetResource android_value_types example_poolGetString example_table 0x01010005
      (Some zero_config) = Inl IndexOutOfRange"
    using GetResource_unknown_entry_panics [OF p5 t5, where bs = example_type_chunk
        and sr = "NewSectionReader rootReader 0 76" and entryIndexes = "[0, 0xFFFFFFFF]"
        and tags = android_value_types and poolGetString = example_poolGetString] l5
    by blast
  show ?thesis
    by (intro conjI p1 t1 readTableType_example_type_chunk readEntryIndexes_example_type_chunk
        l1 n1 s1 p5 t5 l5 s5)
qed

text \<open>
  In the example table, entry 1 of type 1 is the sentinel slot of the decoded chunk and
  entry 2 is out of range; resolving either panics.
\<close>

theorem GetResource_unknown_entry_counterexample:
  "readTableType example_type_chunk (NewSectionReader rootReader 0 76) = Inr example_type \<and>
   readEntryIndexes example_type_chunk (NewSectionReader rootReader 0 76)
     (TableType.Header example_type) = Inr [0, 0xFFFFFFFF] \<and>
   GetResource android_value_types example_poolGetString example_table 0x01010001
     (Some zero_config) = Inl NilDereference \<and>
   GetResource android_value_types example_poolGetString example_table 0x01010002
     (Some zero_config) = Inl IndexOutOfRange"
proof (intro conjI)
  show "readTableType example_type_chunk (NewSectionReader rootReader 0 76) = Inr example_type"
    by (rule readTableType_example_type_chunk)
  show "readEntryIndexes example_type_chunk (NewSectionReader rootReader 0 76)
      (TableType.Header example_type) = Inr [0, 0xFFFFFFFF]"
    by (rule readEntryIndexes_example_type_chunk)
  show "GetResource android_value_types example_poolGetString example_table 0x01010001
      (Some zero_config) = Inl NilDereference"
    by (simp add: resolve_defs example_defs Match_def zero_config_def)
  show "GetResource android_value_types example_poolGetString example_table 0x01010002
      (Some zero_config) = Inl IndexOutOfRange"
    by (simp add: resolve_defs example_defs Match_def zero_config_def)
qed

lemma findType_loop_append:
  "findType_loop (ts @ us) tid config best =
    (case findType_loop ts tid config best of
       Inl e \<Rightarrow> Inl e
     | Inr best' \<Rightarrow> findType_loop us tid config best')"
  by (induction ts arbitrary: best) (auto split: option.splits)

lemma findType_loop_result:
  "findType_loop ts tid config best = Inr (Some b) \<Longrightarrow> best = Some b \<or> b \<in> set ts"
  by (induction ts arbitrary: best) (auto split: option.splits if_splits)

text \<open>
  Claim C9. When the scan of \<open>findType\<close> over the variants \<open>ts\<close> has the best match
  \<open>b\<close>, which is one of \<open>ts\<close>, the next variant \<open>t\<close> replaces \<open>b\<close> only if it has
  the requested type id, matches the requested configuration and \<open>IsBetterThan\<close> says
  that it is better than \<open>b\<close>; otherwise, also in a tie, the earlier variant \<open>b\<close> is
  kept.
\<close>

theorem findType_tie_keeps_first:
  assumes "findType (p\<lparr>TableTypes := ts\<rparr>) tid (Some r) = Inr (Some b)"
  shows "b \<in> set ts \<and>
    findType (p\<lparr>TableTypes := ts @ [t]\<rparr>) tid (Some r) =
      Inr (Some (if uint (ResTableType.Id (TableType.Header t)) = tid \<and>
                    Match (Config (TableType.Header t)) r \<and>
                    IsBetterThan (Config (TableType.Header t)) (Config (TableType.Header b))
                      (Some r)
                 then t else b))"
  using assms findType_loop_result [of ts tid "Some r" None b]
  by (simp add: findType_def findType_loop_append)

text \<open>
  A tie: the later variant with the same configuration is not taken. A strictly better
  later variant: for the request \<^verbatim>\<open>fr\<close>, the \<^verbatim>\<open>fr\<close> variant replaces the unqualified
  one.
\<close>

theorem findType_tie_keeps_first_witness:
  "findType (example_package\<lparr>TableTypes := [example_type]\<rparr>) 1 (Some zero_config)
     = Inr (Some example_type) \<and>
   \<not> IsBetterThan (Config (TableType.Header example_type_late))
       (Config (TableType.Header example_type)) (Some zero_config) \<and>
   \<not> IsBetterThan (Config (TableType.Header example_type))
       (Config (TableType.Header example_type_late)) (Some zero_config) \<and>
   example_type_late \<noteq> example_type \<and>
   findType (example_package\<lparr>TableTypes := [example_type] @ [example_type_late]\<rparr>) 1
     (Some zero_config) = Inr (Some example_type) \<and>
   findType (example_package\<lparr>TableTypes := [example_type]\<rparr>) 1 (Some fr_config)
     = Inr (Some example_type) \<and>
   IsBetterThan (Config (TableType.Header example_type_fr))
       (Config (TableType.Header example_type)) (Some fr_config) \<and>
   findType (example_package\<lparr>TableTypes := [example_type] @ [example_type_fr]\<rparr>) 1
     (Some fr_config) = Inr (Some example_type_fr)"
  using findType_tie_keeps_first [where p = example_package and ts = "[example_type]"
      and tid = 1 and r = zero_config and b = example_type and t = example_type_late]
    findType_tie_keeps_first [where p = example_package and ts = "[example_type]"
      and tid = 1 and r = fr_config and b = example_type and t = example_type_fr]
  by (simp add: findType_def example_defs Match_def config_defs IsBetterThan_def
      IsBetterThan_ref_def live_defs)

text \<open>
  Claim C10. Whenever \<open>GetResource\<close> returns, the error component of its result is
  nil.
\<close>

theorem GetResource_error_nil:
  "GetResource tags poolGetString f rid config = Inr result \<Longrightarrow> snd result = None"
  by (auto simp: GetResource_def split: option.splits sum.splits if_splits)

theorem GetResource_error_nil_witness:
  "GetResource android_value_types example_poolGetString example_table 0x01010000
     (Some zero_config) = Inr (String ''hello'', None) \<and>
   snd (String ''hello'', None :: error option) = None"
  using GetResource_error_nil [where tags = android_value_types
      and poolGetString = example_poolGetString and f = example_table and rid = "0x01010000"
      and config = "Some zero_config" and result = "(String ''hello'', None)"]
  by (simp add: resolve_defs example_defs Match_def zero_config_def)

section \<open>Properties of the decoder\<close>

lemma readChunk_again:
  "readChunk ct rsp bs f offset = Some (Inr (Inr (f', ch))) \<Longrightarrow>
   readChunk ct rsp bs f' offset = Some (Inr (Inr (f', ch)))"
  by (auto simp: readChunk_def Let_def split: sum.splits option.splits if_splits)

lemma NewTableFile_loop_fixed_state:
  assumes lt: "offset < tsize"
    and rc: "readChunk ct rsp bs f offset = Some (Inr (Inr (f, ch)))"
    and sz: "ResChunkHeader.Size ch = 0"
  shows "NewTableFile_loop ct rsp bs tsize f offset = None"
proof (rule ccontr)
  assume "NewTableFile_loop ct rsp bs tsize f offset \<noteq> None"
  then obtain y where y: "NewTableFile_loop ct rsp bs tsize f offset = Some y"
    by auto
  have "\<not> (ct = ct \<and> rsp = rsp \<and> bs = bs \<and> tsize = tsize \<and> f = f \<and> offset = offset)"
  proof (rule NewTableFile_loop.raw_induct [where P = "\<lambda>ct' rsp' bs' tsize' f' offset' y'.
      \<not> (ct' = ct \<and> rsp' = rsp \<and> bs' = bs \<and> tsize' = tsize \<and> f' = f \<and> offset' = offset)",
      OF _ y])
    fix loop ct' rsp' bs' tsize' f' offset' y'
    assume IH: "\<And>ct' rsp' bs' tsize' f' offset' y'. loop ct' rsp' bs' tsize' f' offset' = Some y' \<Longrightarrow>
        \<not> (ct' = ct \<and> rsp' = rsp \<and> bs' = bs \<and> tsize' = tsize \<and> f' = f \<and> offset' = offset)"
      and step: "(if offset' < tsize' then
          (case readChunk ct' rsp' bs' f' offset' of
             None \<Rightarrow> None
           | Some (Inl p) \<Rightarrow> Some (Inl p)
           | Some (Inr (Inl e)) \<Rightarrow> Some (Inr (Inl e))
           | Some (Inr (Inr (f'', chunkHeader))) \<Rightarrow>
              loop ct' rsp' bs' tsize' f'' (offset' + unat (ResChunkHeader.Size chunkHeader)))
        else Some (Inr (Inr f'))) = Some y'"
    show "\<not> (ct' = ct \<and> rsp' = rsp \<and> bs' = bs \<and> tsize' = tsize \<and> f' = f \<and> offset' = offset)"
    proof
      assume eq: "ct' = ct \<and> rsp' = rsp \<and> bs' = bs \<and> tsize' = tsize \<and> f' = f \<and> offset' = offset"
      with step lt rc sz have "loop ct rsp bs tsize f offset = Some y'"
        by simp
      from IH [OF this] show False
        by simp
    qed
  qed
  then show False
    by simp
qed

lemma NewTableFile_loop_zero_size:
  assumes lt: "offset < tsize"
    and rc: "readChunk ct rsp bs f offset = Some (Inr (Inr (f', ch)))"
    and sz: "ResChunkHeader.Size ch = 0"
  shows "NewTableFile_loop ct rsp bs tsize f offset = None"
proof -
  have "NewTableFile_loop ct rsp bs tsize f offset = NewTableFile_loop ct rsp bs tsize f' offset"
    using lt rc sz by (subst NewTableFile_loop.simps) simp
  also have "\<dots> = None"
    using lt readChunk_again [OF rc] sz by (rule NewTableFile_loop_fixed_state)
  finally show ?thesis .
qed

lemma NewTableFile_walk_loop:
  "NewTableFile_walk ct rsp bs tsize n f offset = Some (f', offset') \<Longrightarrow>
   NewTableFile_loop ct rsp bs tsize f offset = NewTableFile_loop ct rsp bs tsize f' offset'"
proof (induction n arbitrary: f offset)
  case 0
  then show ?case by simp
next
  case (Suc n)
  from Suc.prems obtain f1 ch where lt: "offset < tsize"
    and rc: "readChunk ct rsp bs f offset = Some (Inr (Inr (f1, ch)))"
    and rest: "NewTableFile_walk ct rsp bs tsize n f1 (offset + unat (ResChunkHeader.Size ch))
       = Some (f', offset')"
    by (auto split: if_splits option.splits sum.splits)
  have "NewTableFile_loop ct rsp bs tsize f offset =
      NewTableFile_loop ct rsp bs tsize f1 (offset + unat (ResChunkHeader.Size ch))"
    using lt rc by (subst NewTableFile_loop.simps) simp
  also have "\<dots> = NewTableFile_loop ct rsp bs tsize f' offset'"
    by (rule Suc.IH [OF rest])
  finally show ?case .
qed

lemma readTableHeader_zero_size_chunk_table:
  "readTableHeader zero_size_chunk_table =
     \<lparr>ResTableHeader.Header = \<lparr>Type = 2, HeaderSize = 12, ResChunkHeader.Size = 28\<rparr>,
      PackageCount = 0\<rparr>"
  by (simp add: readTableHeader_def reader_defs decode_defs zero_size_chunk_table_def)

lemma readChunk_zero_size_chunk_table_12:
  "readChunk android_chunk_types example_readStringPool zero_size_chunk_table f 12 =
     Some (Inr (Inr (f, \<lparr>Type = 0, HeaderSize = 8, ResChunkHeader.Size = 8\<rparr>)))"
  by (simp add: readChunk_def reader_defs decode_defs zero_size_chunk_table_def
      android_chunk_types_def)

lemma readChunk_zero_size_chunk_table_20:
  "readChunk android_chunk_types example_readStringPool zero_size_chunk_table f 20 =
     Some (Inr (Inr (f, \<lparr>Type = 0, HeaderSize = 8, ResChunkHeader.Size = 0\<rparr>)))"
  by (simp add: readChunk_def reader_defs decode_defs zero_size_chunk_table_def
      android_chunk_types_def)

lemma NewTableFile_walk_zero_size_chunk_table:
  "NewTableFile_walk android_chunk_types example_readStringPool zero_size_chunk_table 28 (Suc 0)
     newTableFile 12 = Some (newTableFile, 20)"
  by (simp add: readChunk_zero_size_chunk_table_12)

text \<open>
  Claim C4, amended. When the chunk walk of \<open>NewTableFile\<close> encounters a chunk that
  \<open>readChunk\<close> reads without error and whose declared total size is zero, the offset
  does not advance, the same chunk is read again without end, and \<open>NewTableFile\<close>
  never returns: it returns no error either.
\<close>

theorem NewTableFile_zero_size_chunk_diverges:
  assumes "NewTableFile_walk ct rsp bs
      (unat (ResChunkHeader.Size (ResTableHeader.Header (readTableHeader bs)))) n newTableFile
      (unat (HeaderSize (ResTableHeader.Header (readTableHeader bs)))) = Some (f, offset)"
    and "offset < unat (ResChunkHeader.Size (ResTableHeader.Header (readTableHeader bs)))"
    and "readChunk ct rsp bs f offset = Some (Inr (Inr (f', chunkHeader)))"
    and "ResChunkHeader.Size chunkHeader = 0"
  shows "NewTableFile ct rsp bs = None"
  unfolding NewTableFile_def Let_def
  using NewTableFile_walk_loop [OF assms(1)] NewTableFile_loop_zero_size [OF assms(2-4)]
  by simp

theorem NewTableFile_zero_size_chunk_diverges_witness:
  "NewTableFile_walk android_chunk_types example_readStringPool zero_size_chunk_table
      (unat (ResChunkHeader.Size (ResTableHeader.Header (readTableHeader zero_size_chunk_table))))
      (Suc 0) newTableFile
      (unat (HeaderSize (ResTableHeader.Header (readTableHeader zero_size_chunk_table))))
     = Some (newTableFile, 20) \<and>
   20 < unat (ResChunkHeader.Size (ResTableHeader.Header (readTableHeader zero_size_chunk_table))) \<and>
   readChunk android_chunk_types example_readStringPool zero_size_chunk_table newTableFile 20 =
     Some (Inr (Inr (newTableFile, \<lparr>Type = 0, HeaderSize = 8, ResChunkHeader.Size = 0\<rparr>))) \<and>
   NewTableFile android_chunk_types example_readStringPool zero_size_chunk_table
     = (None :: (fault + error + string list TableFile) option)"
  using NewTableFile_zero_size_chunk_diverges [where ct = android_chunk_types
      and rsp = example_readStringPool and bs = zero_size_chunk_table and n = "Suc 0"
      and f = newTableFile and offset = 20 and f' = newTableFile
      and chunkHeader = "\<lparr>Type = 0, HeaderSize = 8, ResChunkHeader.Size = 0\<rparr>"]
  by (simp add: readTableHeader_zero_size_chunk_table readChunk_zero_size_chunk_table_12
      readChunk_zero_size_chunk_table_20)

text \<open>
  Decoding the example table, whose second chunk declares the total size zero, does not
  terminate.
\<close>

theorem NewTableFile_zero_size_chunk_counterexample:
  "NewTableFile android_chunk_types example_readStringPool zero_size_chunk_table
     = (None :: (fault + error + string list TableFile) option)"
proof -
  have "NewTableFile_loop android_chunk_types example_readStringPool zero_size_chunk_table 28
      newTableFile 12 =
    NewTableFile_loop android_chunk_types example_readStringPool zero_size_chunk_table 28
      newTableFile 20"
    by (rule NewTableFile_walk_loop [OF NewTableFile_walk_zero_size_chunk_table])
  also have "\<dots> = None"
    by (rule NewTableFile_loop_zero_size [OF _ readChunk_zero_size_chunk_table_20]) simp_all
  finally show ?thesis
    by (simp add: NewTableFile_def readTableHeader_zero_size_chunk_table)
qed

end
